theory Spec2Isabelle
  imports Complex_Main "HOL-Library.Multiset"
begin

section \<open>Go values used by the handlers\<close>

text \<open>
  A Go \<^verbatim>\<open>float64\<close> is a finite binary fraction, an infinity or a NaN. Every finite
  \<^verbatim>\<open>float64\<close> denotes a real number, so the finite values are embedded in \<open>real\<close>
  (a superset of the representable values: a property shown for every real holds for
  every finite \<^verbatim>\<open>float64\<close>).
\<close>

datatype float64 = Finite real | PosInf | NegInf | NaN

text \<open>
  Go's \<^verbatim>\<open>x > k\<close> and \<^verbatim>\<open>x <= k\<close> for a \<^verbatim>\<open>float64\<close> \<open>x\<close> and an untyped numeric constant
  \<open>k\<close>. The constants the handlers compare with (0, 80, 85, 95) are exactly
  representable, so the comparison of the floats is the comparison of the reals. As in
  IEEE 754, every ordered comparison with a NaN is false.
\<close>

fun f64_gt :: "float64 \<Rightarrow> real \<Rightarrow> bool" where
  "f64_gt (Finite r) k = (k < r)"
| "f64_gt PosInf k = True"
| "f64_gt NegInf k = False"
| "f64_gt NaN k = False"

fun f64_le :: "float64 \<Rightarrow> real \<Rightarrow> bool" where
  "f64_le (Finite r) k = (r \<le> k)"
| "f64_le PosInf k = False"
| "f64_le NegInf k = True"
| "f64_le NaN k = False"

fun is_finite :: "float64 \<Rightarrow> bool" where
  "is_finite (Finite r) = True"
| "is_finite PosInf = False"
| "is_finite NegInf = False"
| "is_finite NaN = False"

section \<open>The health classification of \<^verbatim>\<open>HandleGetSystemHealth\<close>\<close>

text \<open>The health status constants of \<^verbatim>\<open>handlers.go\<close>.\<close>

definition statusHealthy :: string where
  "statusHealthy = ''healthy''"

definition statusCritical :: string where
  "statusCritical = ''critical''"

definition statusWarning :: string where
  "statusWarning = ''warning''"

text \<open>
  The two local variables the classification updates: \<^verbatim>\<open>status\<close> and \<^verbatim>\<open>warnings\<close>.
  A Go slice that was never appended to is \<^verbatim>\<open>nil\<close>, of length 0: the list \<open>[]\<close>.
\<close>

record verdict =
  status :: string
  warnings :: "string list"

text \<open>
  The three sequential blocks of the handler, one per metric, each reading one usage
  percentage and updating \<^verbatim>\<open>status\<close> and \<^verbatim>\<open>warnings\<close>:
  \<^verbatim>\<open>
  if cpuUsage > 95 {
      status = statusCritical
      warnings = append(warnings, "CPU usage is critical (>95%)")
  } else if cpuUsage > 80 {
      if status != statusCritical { status = statusWarning }
      warnings = append(warnings, "CPU usage is high (>80%)")
  }
  \<close>
  and likewise for \<^verbatim>\<open>memInfo.UsedPercent\<close> and \<^verbatim>\<open>rootDisk.UsedPercent\<close>, with 85 as the
  lower threshold.
\<close>

definition check_cpu :: "float64 \<Rightarrow> verdict \<Rightarrow> verdict" where
  "check_cpu cpuUsage v =
     (if f64_gt cpuUsage 95 then
        v\<lparr>status := statusCritical,
          warnings := warnings v @ [''CPU usage is critical (>95%)'']\<rparr>
      else if f64_gt cpuUsage 80 then
        v\<lparr>status := (if status v \<noteq> statusCritical then statusWarning else status v),
          warnings := warnings v @ [''CPU usage is high (>80%)'']\<rparr>
      else v)"

definition check_memory :: "float64 \<Rightarrow> verdict \<Rightarrow> verdict" where
  "check_memory usedPercent v =
     (if f64_gt usedPercent 95 then
        v\<lparr>status := statusCritical,
          warnings := warnings v @ [''Memory usage is critical (>95%)'']\<rparr>
      else if f64_gt usedPercent 85 then
        v\<lparr>status := (if status v \<noteq> statusCritical then statusWarning else status v),
          warnings := warnings v @ [''Memory usage is high (>85%)'']\<rparr>
      else v)"

definition check_disk :: "float64 \<Rightarrow> verdict \<Rightarrow> verdict" where
  "check_disk usedPercent v =
     (if f64_gt usedPercent 95 then
        v\<lparr>status := statusCritical,
          warnings := warnings v @ [''Disk usage is critical (>95%)'']\<rparr>
      else if f64_gt usedPercent 85 then
        v\<lparr>status := (if status v \<noteq> statusCritical then statusWarning else status v),
          warnings := warnings v @ [''Disk usage is high (>85%)'']\<rparr>
      else v)"

text \<open>\<^verbatim>\<open>status := statusHealthy; var warnings []string\<close>\<close>

definition initial_verdict :: verdict where
  "initial_verdict = \<lparr>status = statusHealthy, warnings = []\<rparr>"

text \<open>
  The classification of the handler: the three blocks in the order of the source, CPU,
  then memory, then root disk.
\<close>

definition classify :: "float64 \<Rightarrow> float64 \<Rightarrow> float64 \<Rightarrow> verdict" where
  "classify cpuUsage memUsedPercent diskUsedPercent =
     check_disk diskUsedPercent
       (check_memory memUsedPercent
         (check_cpu cpuUsage initial_verdict))"

subsection \<open>The checks in another order\<close>

text \<open>
  To state what a different evaluation order would give, the three blocks are named and
  run in the order of a list; \<open>classify\<close> is the run in the order CPU, memory, disk of
  the source.
\<close>

datatype metric = CPU | Memory | Disk

definition check_metric :: "float64 \<Rightarrow> float64 \<Rightarrow> float64 \<Rightarrow> metric \<Rightarrow> verdict \<Rightarrow> verdict" where
  "check_metric cpuUsage memUsedPercent diskUsedPercent k =
     (case k of
        CPU \<Rightarrow> check_cpu cpuUsage
      | Memory \<Rightarrow> check_memory memUsedPercent
      | Disk \<Rightarrow> check_disk diskUsedPercent)"

definition classify_in_order :: "metric list \<Rightarrow> float64 \<Rightarrow> float64 \<Rightarrow> float64 \<Rightarrow> verdict" where
  "classify_in_order order cpuUsage memUsedPercent diskUsedPercent =
     fold (check_metric cpuUsage memUsedPercent diskUsedPercent) order initial_verdict"

text \<open>
  What a reordering may change is the order of the warnings only. The summary of a
  verdict forgets that order; each block acts on summaries.
\<close>

definition verdict_summary :: "verdict \<Rightarrow> string \<times> string multiset" where
  "verdict_summary v = (status v, mset (warnings v))"

definition summary_check ::
  "float64 \<Rightarrow> float64 \<Rightarrow> float64 \<Rightarrow> metric \<Rightarrow> string \<times> string multiset
     \<Rightarrow> string \<times> string multiset" where
  "summary_check c m d k a =
     (let v = check_metric c m d k \<lparr>status = fst a, warnings = []\<rparr>
      in (status v, snd a + mset (warnings v)))"

subsection \<open>Severity, as the specification words it\<close>

text \<open>
  The specification orders the statuses \<^verbatim>\<open>critical > warning > healthy\<close> and speaks of
  the severity a single metric implies against its own two thresholds, and of the
  message it contributes. These definitions follow those words; the theorems compare
  them with the code above.
\<close>

definition severity :: "string \<Rightarrow> nat" where
  "severity s = (if s = statusCritical then 2 else if s = statusWarning then 1 else 0)"

definition metric_severity :: "real \<Rightarrow> real \<Rightarrow> float64 \<Rightarrow> string" where
  "metric_severity critical_threshold warning_threshold x =
     (if f64_gt x critical_threshold then statusCritical
      else if f64_gt x warning_threshold then statusWarning
      else statusHealthy)"

definition max_severity :: "string \<Rightarrow> string \<Rightarrow> string" where
  "max_severity a b = (if severity a < severity b then b else a)"

definition metric_warnings :: "string \<Rightarrow> string \<Rightarrow> real \<Rightarrow> real \<Rightarrow> float64 \<Rightarrow> string list" where
  "metric_warnings critical_message high_message critical_threshold warning_threshold x =
     (if f64_gt x critical_threshold then [critical_message]
      else if f64_gt x warning_threshold then [high_message]
      else [])"

definition cpu_warnings :: "float64 \<Rightarrow> string list" where
  "cpu_warnings =
     metric_warnings ''CPU usage is critical (>95%)'' ''CPU usage is high (>80%)'' 95 80"

definition memory_warnings :: "float64 \<Rightarrow> string list" where
  "memory_warnings =
     metric_warnings ''Memory usage is critical (>95%)'' ''Memory usage is high (>85%)'' 95 85"

definition disk_warnings :: "float64 \<Rightarrow> string list" where
  "disk_warnings =
     metric_warnings ''Disk usage is critical (>95%)'' ''Disk usage is high (>85%)'' 95 85"

section \<open>The handler \<^verbatim>\<open>HandleGetSystemHealth\<close>\<close>

text \<open>
  The handler reads its metrics from library calls (\<^verbatim>\<open>cpu.Percent\<close>, \<^verbatim>\<open>load.Avg\<close>,
  \<^verbatim>\<open>mem.VirtualMemory\<close>, \<^verbatim>\<open>disk.Usage("/")\<close>, \<^verbatim>\<open>host.Info\<close>). What each call returned
  is an input of the model: \<open>Inl e\<close> for a non-nil \<^verbatim>\<open>err\<close> (the error by its message),
  \<open>Inr x\<close> for the value. Only the fields the handler reads are kept; \<^verbatim>\<open>uint64\<close> fields
  are copied unchanged, so they are natural numbers.
\<close>

type_synonym err = string

record load_AvgStat =
  Load1 :: float64
  Load5 :: float64
  Load15 :: float64

record mem_VirtualMemoryStat =
  mem_UsedPercent :: float64
  mem_Available :: nat
  mem_Total :: nat

record disk_UsageStat =
  disk_UsedPercent :: float64
  disk_Free :: nat
  disk_Total :: nat

record host_InfoStat =
  Uptime :: nat
  Hostname :: string

record health_sources =
  cpu_Percent :: "err + float64 list"
  load_Avg :: "err + load_AvgStat"
  mem_VirtualMemory :: "err + mem_VirtualMemoryStat"
  disk_Usage :: "err + disk_UsageStat"
  host_Info :: "err + host_InfoStat"

text \<open>
  The map the handler serialises. The formatted strings (\<^verbatim>\<open>available_human\<close>,
  \<^verbatim>\<open>total_human\<close>, \<^verbatim>\<open>free_human\<close>, the uptime's \<^verbatim>\<open>human\<close>) and the constant
  \<^verbatim>\<open>mount_point\<close> are left out: nothing is decided on them.
\<close>

record health_result =
  result_status :: string
  result_warnings :: "string list"
  cpu_usage_percent :: float64
  load_1m :: float64
  load_5m :: float64
  load_15m :: float64
  memory_usage_percent :: float64
  memory_available_bytes :: nat
  disk_usage_percent :: float64
  disk_free_bytes :: nat
  uptime_seconds :: nat
  hostname :: string

text \<open>
  A handler returns \<^verbatim>\<open>mcp.NewToolResultError\<close> or \<^verbatim>\<open>mcp.NewToolResultText\<close>; the run-time
  panics of Go (an index or a slice bound out of range, a field of a \<^verbatim>\<open>nil\<close> pointer) are
  the third outcome.
\<close>

datatype tool_error =
    GetMemoryInfoFailed err
  | GetRootDiskInfoFailed err
  | GetSystemInfoFailed err
  | GetProcessesFailed err
  | MarshalFailed

datatype 'a tool_result = ToolResultError tool_error | ToolResultText 'a

datatype 'a outcome = Panic | Return 'a

text \<open>
  \<^verbatim>\<open>
  cpuPercent, err := cpu.Percent(0, false)
  if err != nil { cpuPercent = []float64{0} }
  loadAvg, err := load.Avg()
  if err != nil { loadAvg = &load.AvgStat{} }
  \<close>
\<close>

definition cpuPercent_of :: "health_sources \<Rightarrow> float64 list" where
  "cpuPercent_of src = (case cpu_Percent src of Inl e \<Rightarrow> [Finite 0] | Inr xs \<Rightarrow> xs)"

definition loadAvg_of :: "health_sources \<Rightarrow> load_AvgStat" where
  "loadAvg_of src =
     (case load_Avg src of
        Inl e \<Rightarrow> \<lparr>Load1 = Finite 0, Load5 = Finite 0, Load15 = Finite 0\<rparr>
      | Inr l \<Rightarrow> l)"

text \<open>
  \<^verbatim>\<open>json.Marshal\<close> returns an error for a \<^verbatim>\<open>float64\<close> that is a NaN or an infinity, and
  for no other value of this map.
\<close>

definition marshal_ok :: "health_result \<Rightarrow> bool" where
  "marshal_ok r \<longleftrightarrow>
     is_finite (cpu_usage_percent r) \<and> is_finite (load_1m r) \<and> is_finite (load_5m r) \<and>
     is_finite (load_15m r) \<and> is_finite (memory_usage_percent r) \<and>
     is_finite (disk_usage_percent r)"

definition HandleGetSystemHealth :: "health_sources \<Rightarrow> health_result tool_result outcome" where
  "HandleGetSystemHealth src =
     (case cpuPercent_of src of
        [] \<Rightarrow> Panic
      | cpuUsage # _ \<Rightarrow>
         (case mem_VirtualMemory src of
            Inl e \<Rightarrow> Return (ToolResultError (GetMemoryInfoFailed e))
          | Inr memInfo \<Rightarrow>
             (case disk_Usage src of
                Inl e \<Rightarrow> Return (ToolResultError (GetRootDiskInfoFailed e))
              | Inr rootDisk \<Rightarrow>
                 (case host_Info src of
                    Inl e \<Rightarrow> Return (ToolResultError (GetSystemInfoFailed e))
                  | Inr info \<Rightarrow>
                     (let v = classify cpuUsage (mem_UsedPercent memInfo) (disk_UsedPercent rootDisk);
                          result = \<lparr>result_status = status v,
                                    result_warnings = warnings v,
                                    cpu_usage_percent = cpuUsage,
                                    load_1m = Load1 (loadAvg_of src),
                                    load_5m = Load5 (loadAvg_of src),
                                    load_15m = Load15 (loadAvg_of src),
                                    memory_usage_percent = mem_UsedPercent memInfo,
                                    memory_available_bytes = mem_Available memInfo,
                                    disk_usage_percent = disk_UsedPercent rootDisk,
                                    disk_free_bytes = disk_Free rootDisk,
                                    uptime_seconds = Uptime info,
                                    hostname = Hostname info\<rparr>
                      in if marshal_ok result then Return (ToolResultText result)
                         else Return (ToolResultError MarshalFailed))))))"

section \<open>The configuration\<close>

text \<open>The temperature unit constants and the \<^verbatim>\<open>Config\<close> struct of package \<^verbatim>\<open>config\<close>.\<close>

definition UnitCelsius :: string where
  "UnitCelsius = ''celsius''"

definition UnitFahrenheit :: string where
  "UnitFahrenheit = ''fahrenheit''"

definition UnitKelvin :: string where
  "UnitKelvin = ''kelvin''"

record Config =
  TempUnit :: string
  MaxProcesses :: int
  MountPoints :: "string list"
  Interfaces :: "string list"
  EnableGPU :: bool
  MountPointsStr :: string
  InterfacesStr :: string

text \<open>
  \<^verbatim>\<open>strings.Split(s, ",")\<close>: the pieces of \<open>s\<close> between the commas, one more than there
  are commas.
\<close>

fun strings_Split_comma :: "string \<Rightarrow> string list" where
  "strings_Split_comma [] = [[]]"
| "strings_Split_comma (c # cs) =
     (if c = CHR '','' then [] # strings_Split_comma cs
      else (case strings_Split_comma cs of
              [] \<Rightarrow> [[c]]
            | part # parts \<Rightarrow> (c # part) # parts))"

text \<open>
  \<^verbatim>\<open>strings.ToLower\<close> and \<^verbatim>\<open>strings.TrimSpace\<close> are functions of Go's library, defined on
  all of Unicode; the model takes them as the parameters \<open>ToLower\<close> and \<open>TrimSpace\<close>.
\<close>

definition SplitAndTrim :: "(string \<Rightarrow> string) \<Rightarrow> string \<Rightarrow> string list" where
  "SplitAndTrim TrimSpace s =
     filter (\<lambda>trimmed. trimmed \<noteq> []) (map TrimSpace (strings_Split_comma s))"

datatype config_error = InvalidTempUnit string

text \<open>
  \<^verbatim>\<open>Validate\<close> has a pointer receiver: it returns the error (if any) and leaves its
  changes in the receiver, which the model returns as well.
\<close>

definition Validate ::
  "(string \<Rightarrow> string) \<Rightarrow> (string \<Rightarrow> string) \<Rightarrow> Config \<Rightarrow> Config \<times> config_error option" where
  "Validate ToLower TrimSpace c =
     (let c1 = c\<lparr>TempUnit := ToLower (TempUnit c)\<rparr> in
      if TempUnit c1 \<noteq> UnitCelsius \<and> TempUnit c1 \<noteq> UnitFahrenheit \<and> TempUnit c1 \<noteq> UnitKelvin
      then (c1, Some (InvalidTempUnit (TempUnit c1)))
      else
        let c2 = (if MaxProcesses c1 < 1 then c1\<lparr>MaxProcesses := 10\<rparr> else c1);
            c3 = (if MaxProcesses c2 > 50 then c2\<lparr>MaxProcesses := 50\<rparr> else c2);
            c4 = (if MountPointsStr c3 \<noteq> [] then
                    c3\<lparr>MountPoints := SplitAndTrim TrimSpace (MountPointsStr c3)\<rparr> else c3);
            c5 = (if InterfacesStr c4 \<noteq> [] then
                    c4\<lparr>Interfaces := SplitAndTrim TrimSpace (InterfacesStr c4)\<rparr> else c4)
        in (c5, None))"

text \<open>
  The two library functions on ASCII strings, where they are the familiar ones; they
  instantiate the parameters in the examples.
\<close>

definition ascii_ToLower :: "string \<Rightarrow> string" where
  "ascii_ToLower =
     map (\<lambda>c. if (65::nat) \<le> of_char c \<and> of_char c \<le> (90::nat)
               then char_of (of_char c + (32::nat)) else c)"

definition ascii_space :: "char \<Rightarrow> bool" where
  "ascii_space c \<longleftrightarrow> c \<in> {CHR '' '', CHR 0x09, CHR 0x0A, CHR 0x0B, CHR 0x0C, CHR 0x0D}"

definition ascii_TrimSpace :: "string \<Rightarrow> string" where
  "ascii_TrimSpace s = rev (dropWhile ascii_space (rev (dropWhile ascii_space s)))"

section \<open>The handler \<^verbatim>\<open>HandleGetProcessList\<close>\<close>

subsection \<open>The limit and the sort key of a request\<close>

text \<open>
  Go's \<^verbatim>\<open>int\<close> has 32 or 64 bits, by platform. The conversion \<^verbatim>\<open>int(l)\<close> of a \<^verbatim>\<open>float64\<close>
  discards the fraction (truncation towards zero); when the result does not fit the
  type, the language specification leaves the value to the implementation. Both are
  parameters of the model.
\<close>

record platform =
  int_bits :: nat
  out_of_range_int :: "float64 \<Rightarrow> int"

definition float64_to_int :: "platform \<Rightarrow> float64 \<Rightarrow> int" where
  "float64_to_int p x =
     (case x of
        Finite r \<Rightarrow>
          (let t = (if r < 0 then \<lceil>r\<rceil> else \<lfloor>r\<rfloor>) in
           if - (2 ^ (int_bits p - 1)) \<le> t \<and> t < 2 ^ (int_bits p - 1) then t
           else out_of_range_int p x)
      | _ \<Rightarrow> out_of_range_int p x)"

text \<open>
  On amd64 the conversion instruction answers every out-of-range operand with the
  smallest 64-bit integer.
\<close>

definition amd64 :: platform where
  "amd64 = \<lparr>int_bits = 64, out_of_range_int = (\<lambda>x. - (2 ^ 63))\<rparr>"

text \<open>
  The arguments of a request: \<^verbatim>\<open>request.Params.Arguments\<close> is \<open>None\<close> when it is not a
  \<^verbatim>\<open>map[string]interface{}\<close>; a key holds a JSON number (a \<^verbatim>\<open>float64\<close>), a string, a
  boolean or a value of another type.
\<close>

datatype arg = ArgNumber float64 | ArgString string | ArgBool bool | ArgOther

type_synonym arguments = "(string \<rightharpoonup> arg) option"

text \<open>
  \<^verbatim>\<open>
  limit := h.cfg.MaxProcesses
  sortBy := "cpu"
  if args, ok := request.Params.Arguments.(map[string]interface{}); ok {
      if l, ok := args["limit"].(float64); ok && l > 0 {
          limit = int(l)
          if limit > 50 { limit = 50 }
      }
      if s, ok := args["sort_by"].(string); ok && s != "" {
          sortBy = strings.ToLower(s)
      }
  }
  \<close>
\<close>

definition process_limit :: "platform \<Rightarrow> Config \<Rightarrow> arguments \<Rightarrow> int" where
  "process_limit p cfg arguments =
     (case arguments of
        None \<Rightarrow> MaxProcesses cfg
      | Some args \<Rightarrow>
         (case args ''limit'' of
            Some (ArgNumber l) \<Rightarrow>
              (if f64_gt l 0 then
                 (let limit = float64_to_int p l in if limit > 50 then 50 else limit)
               else MaxProcesses cfg)
          | _ \<Rightarrow> MaxProcesses cfg))"

definition process_sortBy :: "(string \<Rightarrow> string) \<Rightarrow> arguments \<Rightarrow> string" where
  "process_sortBy ToLower arguments =
     (case arguments of
        None \<Rightarrow> ''cpu''
      | Some args \<Rightarrow>
         (case args ''sort_by'' of
            Some (ArgString s) \<Rightarrow> (if s \<noteq> [] then ToLower s else ''cpu'')
          | _ \<Rightarrow> ''cpu''))"

subsection \<open>The list of processes\<close>

text \<open>
  What the calls on one \<^verbatim>\<open>*process.Process\<close> returned. The handler discards every
  error of these calls and uses the value returned beside it; \<^verbatim>\<open>MemoryInfo\<close> returns a
  pointer, which is \<^verbatim>\<open>nil\<close> (\<open>None\<close>) when the call has failed. A \<^verbatim>\<open>float32\<close> has the
  same kinds of values as a \<^verbatim>\<open>float64\<close>.
\<close>

type_synonym float32 = float64

record MemoryInfoStat =
  RSS :: nat

record process =
  Pid :: int
  p_Name :: string
  p_CPUPercent :: float64
  p_MemoryPercent :: float32
  p_MemoryInfo :: "MemoryInfoStat option"
  p_Status :: "string list"
  p_CreateTime :: int

text \<open>The local struct \<^verbatim>\<open>procInfo\<close>.\<close>

record procInfo =
  info_PID :: int
  info_Name :: string
  info_CPU :: float64
  info_Memory :: float32
  info_RSS :: nat
  info_Status :: "string list"
  info_CreateTime :: int

text \<open>\<^verbatim>\<open>createTime / 1000\<close>: Go's integer division truncates towards zero.\<close>

definition ms_to_seconds :: "int \<Rightarrow> int" where
  "ms_to_seconds createTime =
     (if createTime < 0 then - ((- createTime) div 1000) else createTime div 1000)"

text \<open>
  The loop that builds \<^verbatim>\<open>procList\<close>, one entry per process in the order of
  \<^verbatim>\<open>processes\<close>. The field access \<^verbatim>\<open>memInfo.RSS\<close> on a \<^verbatim>\<open>nil\<close> pointer panics.
\<close>

fun build_procList :: "process list \<Rightarrow> procInfo list outcome" where
  "build_procList [] = Return []"
| "build_procList (p # ps) =
     (case p_MemoryInfo p of
        None \<Rightarrow> Panic
      | Some memInfo \<Rightarrow>
         (case build_procList ps of
            Panic \<Rightarrow> Panic
          | Return procList \<Rightarrow>
              Return (\<lparr>info_PID = Pid p,
                       info_Name = p_Name p,
                       info_CPU = p_CPUPercent p,
                       info_Memory = p_MemoryPercent p,
                       info_RSS = RSS memInfo,
                       info_Status = p_Status p,
                       info_CreateTime = ms_to_seconds (p_CreateTime p)\<rparr> # procList)))"

text \<open>
  Go's \<^verbatim>\<open>a > b\<close> on two floats, and the \<^verbatim>\<open>less\<close> function the handler gives to
  \<^verbatim>\<open>sort.Slice\<close> for each sort key.
\<close>

fun float_gt :: "float64 \<Rightarrow> float64 \<Rightarrow> bool" where
  "float_gt (Finite a) (Finite b) = (b < a)"
| "float_gt (Finite a) NegInf = True"
| "float_gt PosInf (Finite b) = True"
| "float_gt PosInf NegInf = True"
| "float_gt a b = False"

definition process_less :: "string \<Rightarrow> procInfo \<Rightarrow> procInfo \<Rightarrow> bool" where
  "process_less sortBy a b =
     (if sortBy = ''memory'' then float_gt (info_Memory a) (info_Memory b)
      else if sortBy = ''pid'' then info_PID a < info_PID b
      else float_gt (info_CPU a) (info_CPU b))"

text \<open>
  \<^verbatim>\<open>if len(procList) > limit { procList = procList[:limit] }\<close>: the slice expression
  panics for a negative bound.
\<close>

definition limit_results :: "int \<Rightarrow> 'a list \<Rightarrow> 'a list outcome" where
  "limit_results limit procList =
     (if int (length procList) > limit then
        (if limit < 0 then Panic else Return (take (nat limit) procList))
      else Return procList)"

subsection \<open>The handler\<close>

text \<open>The map the handler serialises.\<close>

record process_list_result =
  result_processes :: "procInfo list"
  result_total :: nat
  result_shown :: nat
  result_sort_by :: string

text \<open>
  \<^verbatim>\<open>json.Marshal\<close> returns an error for a float that is a NaN or an infinity, and for no
  other value of this map.
\<close>

definition process_marshal_ok :: "process_list_result \<Rightarrow> bool" where
  "process_marshal_ok r =
     list_all (\<lambda>i. is_finite (info_CPU i) \<and> is_finite (info_Memory i)) (result_processes r)"

text \<open>
  The handler, for what \<^verbatim>\<open>process.Processes()\<close> returned. \<^verbatim>\<open>sort.Slice\<close> is a function
  of Go's library, which leaves the order of equal elements open; it is the parameter
  \<open>sort_Slice\<close>, as \<^verbatim>\<open>strings.ToLower\<close> is the parameter \<open>ToLower\<close>.
\<close>

definition HandleGetProcessList ::
  "platform \<Rightarrow> ((procInfo \<Rightarrow> procInfo \<Rightarrow> bool) \<Rightarrow> procInfo list \<Rightarrow> procInfo list)
     \<Rightarrow> (string \<Rightarrow> string) \<Rightarrow> Config \<Rightarrow> arguments \<Rightarrow> err + process list
     \<Rightarrow> process_list_result tool_result outcome" where
  "HandleGetProcessList p sort_Slice ToLower cfg arguments process_Processes =
     (let limit = process_limit p cfg arguments;
          sortBy = process_sortBy ToLower arguments
      in case process_Processes of
           Inl e \<Rightarrow> Return (ToolResultError (GetProcessesFailed e))
         | Inr processes \<Rightarrow>
            (case build_procList processes of
               Panic \<Rightarrow> Panic
             | Return procList \<Rightarrow>
                (case limit_results limit (sort_Slice (process_less sortBy) procList) of
                   Panic \<Rightarrow> Panic
                 | Return shown \<Rightarrow>
                    (let result = \<lparr>result_processes = shown,
                                    result_total = length processes,
                                    result_shown = length shown,
                                    result_sort_by = sortBy\<rparr>
                     in if process_marshal_ok result then Return (ToolResultText result)
                        else Return (ToolResultError MarshalFailed)))))"

section \<open>Sample inputs\<close>

text \<open>
  Library results with percentages outside 0..100 (a negative CPU and memory usage, a
  disk usage of 120) and a failed \<^verbatim>\<open>load.Avg\<close>.
\<close>

definition sample_sources :: health_sources where
  "sample_sources =
     \<lparr>cpu_Percent = Inr [Finite (-5)],
      load_Avg = Inl ''load average unavailable'',
      mem_VirtualMemory =
        Inr \<lparr>mem_UsedPercent = Finite (-1), mem_Available = 0, mem_Total = 0\<rparr>,
      disk_Usage = Inr \<lparr>disk_UsedPercent = Finite 120, disk_Free = 0, disk_Total = 1000\<rparr>,
      host_Info = Inr \<lparr>Uptime = 42, Hostname = ''pi''\<rparr>\<rparr>"

text \<open>A configuration as the flags give it, with \<^verbatim>\<open>--max-processes 0\<close>.\<close>

definition sample_config :: Config where
  "sample_config =
     \<lparr>TempUnit = ''Celsius'', MaxProcesses = 0, MountPoints = [], Interfaces = [],
      EnableGPU = True, MountPointsStr = '' /, /home ,,'', InterfacesStr = []\<rparr>"

text \<open>Three processes whose calls have all succeeded.\<close>

definition sample_processes :: "process list" where
  "sample_processes =
     [\<lparr>Pid = 1, p_Name = ''init'', p_CPUPercent = Finite 0, p_MemoryPercent = Finite (1 / 2),
       p_MemoryInfo = Some \<lparr>RSS = 4096\<rparr>, p_Status = [''sleep''], p_CreateTime = 1000\<rparr>,
      \<lparr>Pid = 7, p_Name = ''sshd'', p_CPUPercent = Finite 1, p_MemoryPercent = Finite 1,
       p_MemoryInfo = Some \<lparr>RSS = 8192\<rparr>, p_Status = [''sleep''], p_CreateTime = 2500\<rparr>,
      \<lparr>Pid = 9, p_Name = ''go'', p_CPUPercent = Finite 50, p_MemoryPercent = Finite 3,
       p_MemoryInfo = Some \<lparr>RSS = 65536\<rparr>, p_Status = [''running''], p_CreateTime = 3999\<rparr>]"

section \<open>Properties of the comparisons\<close>

lemma f64_le_not_gt: "f64_le x k \<Longrightarrow> k \<le> k' \<Longrightarrow> \<not> f64_gt x k'"
  by (cases x) auto

lemma status_distinct:
  "statusHealthy \<noteq> statusCritical" "statusHealthy \<noteq> statusWarning"
  "statusWarning \<noteq> statusCritical" "statusCritical \<noteq> statusHealthy"
  "statusWarning \<noteq> statusHealthy" "statusCritical \<noteq> statusWarning"
  by (simp_all add: statusHealthy_def statusCritical_def statusWarning_def)

lemmas check_defs = check_cpu_def check_memory_def check_disk_def

section \<open>Status as a function of the three metrics\<close>

text \<open>
  C1. Whenever at least one of the three metrics is strictly above 95, the status is
  \<^verbatim>\<open>critical\<close>, whatever the two others are.
\<close>

theorem critical_if_any_above_95:
  assumes "f64_gt c 95 \<or> f64_gt m 95 \<or> f64_gt d 95"
  shows "status (classify c m d) = statusCritical"
  using assms by (auto simp: classify_def check_defs initial_verdict_def)

theorem critical_if_any_above_95_witness:
  "(f64_gt (Finite 10) 95 \<or> f64_gt (Finite 96) 95 \<or> f64_gt (Finite 90) 95)
   \<and> status (classify (Finite 10) (Finite 96) (Finite 90)) = statusCritical"
  using critical_if_any_above_95 [of "Finite 10" "Finite 96" "Finite 90"] by simp

text \<open>
  C2. When CPU usage is at most 80, memory usage at most 85 and disk usage at most 85,
  the status is \<^verbatim>\<open>healthy\<close> and the list of warnings is empty.
\<close>

theorem healthy_if_all_within_warning:
  assumes "f64_le c 80" and "f64_le m 85" and "f64_le d 85"
  shows "status (classify c m d) = statusHealthy \<and> warnings (classify c m d) = []"
proof -
  have "\<not> f64_gt c 95" "\<not> f64_gt c 80"
    using f64_le_not_gt [OF assms(1), of 95] f64_le_not_gt [OF assms(1), of 80] by simp_all
  moreover have "\<not> f64_gt m 95" "\<not> f64_gt m 85"
    using f64_le_not_gt [OF assms(2), of 95] f64_le_not_gt [OF assms(2), of 85] by simp_all
  moreover have "\<not> f64_gt d 95" "\<not> f64_gt d 85"
    using f64_le_not_gt [OF assms(3), of 95] f64_le_not_gt [OF assms(3), of 85] by simp_all
  ultimately show ?thesis
    by (simp add: classify_def check_defs initial_verdict_def)
qed

theorem healthy_if_all_within_warning_witness:
  "f64_le (Finite 80) 80 \<and> f64_le (Finite 85) 85 \<and> f64_le (Finite (-3)) 85
   \<and> status (classify (Finite 80) (Finite 85) (Finite (-3))) = statusHealthy
   \<and> warnings (classify (Finite 80) (Finite 85) (Finite (-3))) = []"
  using healthy_if_all_within_warning [of "Finite 80" "Finite 85" "Finite (-3)"] by simp

text \<open>
  C3. When no metric is strictly above 95 and at least one is strictly above its warning
  threshold (80 for CPU, 85 for memory and for disk), the status is \<^verbatim>\<open>warning\<close>.
\<close>

theorem warning_if_none_critical_some_high:
  assumes "\<not> f64_gt c 95" and "\<not> f64_gt m 95" and "\<not> f64_gt d 95"
    and "f64_gt c 80 \<or> f64_gt m 85 \<or> f64_gt d 85"
  shows "status (classify c m d) = statusWarning"
  using assms by (auto simp: classify_def check_defs initial_verdict_def status_distinct)

theorem warning_if_none_critical_some_high_witness:
  "\<not> f64_gt (Finite 50) 95 \<and> \<not> f64_gt (Finite 20) 95 \<and> \<not> f64_gt (Finite 95) 95
   \<and> (f64_gt (Finite 50) 80 \<or> f64_gt (Finite 20) 85 \<or> f64_gt (Finite 95) 85)
   \<and> status (classify (Finite 50) (Finite 20) (Finite 95)) = statusWarning"
  using warning_if_none_critical_some_high [of "Finite 50" "Finite 20" "Finite 95"] by simp

section \<open>Strict comparisons\<close>

text \<open>
  C4, as the claim states it, fails on its own example: for CPU 95, memory 85 and disk
  95 the verdict is not \<^verbatim>\<open>healthy\<close> with no warnings.
\<close>

theorem at_thresholds_95_85_95_not_healthy:
  "classify (Finite 95) (Finite 85) (Finite 95) \<noteq> \<lparr>status = statusHealthy, warnings = []\<rparr>"
  by (simp add: classify_def check_defs initial_verdict_def)

text \<open>
  C4, amended. The comparisons are strict. A value equal to 95 does not take the
  critical branch of any block, and a value equal to the warning threshold (80 for CPU,
  85 for memory and disk) takes no branch; a value strictly above 95 takes the critical
  branch, and a value strictly above the warning threshold and not above 95 takes the
  warning branch. A value of exactly 95 is above the warning threshold, so it takes the
  warning branch: for CPU 95, memory 85, disk 95 the status is \<^verbatim>\<open>warning\<close>, with the
  CPU and disk warnings. With every metric exactly at its warning threshold (80, 85, 85)
  the status is \<^verbatim>\<open>healthy\<close> and there is no warning.
\<close>

theorem thresholds_strict:
  "check_cpu (Finite 95) v =
     v\<lparr>status := (if status v \<noteq> statusCritical then statusWarning else status v),
       warnings := warnings v @ [''CPU usage is high (>80%)'']\<rparr>
   \<and> check_memory (Finite 95) v =
     v\<lparr>status := (if status v \<noteq> statusCritical then statusWarning else status v),
       warnings := warnings v @ [''Memory usage is high (>85%)'']\<rparr>
   \<and> check_disk (Finite 95) v =
     v\<lparr>status := (if status v \<noteq> statusCritical then statusWarning else status v),
       warnings := warnings v @ [''Disk usage is high (>85%)'']\<rparr>
   \<and> check_cpu (Finite 80) v = v
   \<and> check_memory (Finite 85) v = v
   \<and> check_disk (Finite 85) v = v
   \<and> classify (Finite 95) (Finite 85) (Finite 95) =
     \<lparr>status = statusWarning,
      warnings = [''CPU usage is high (>80%)'', ''Disk usage is high (>85%)'']\<rparr>
   \<and> classify (Finite 80) (Finite 85) (Finite 85) = \<lparr>status = statusHealthy, warnings = []\<rparr>
   \<and> (f64_gt x 95 \<longrightarrow>
        check_cpu x v =
          v\<lparr>status := statusCritical, warnings := warnings v @ [''CPU usage is critical (>95%)'']\<rparr>
        \<and> check_memory x v =
          v\<lparr>status := statusCritical, warnings := warnings v @ [''Memory usage is critical (>95%)'']\<rparr>
        \<and> check_disk x v =
          v\<lparr>status := statusCritical, warnings := warnings v @ [''Disk usage is critical (>95%)'']\<rparr>)
   \<and> (f64_gt y 80 \<and> \<not> f64_gt y 95 \<longrightarrow>
        check_cpu y v =
          v\<lparr>status := (if status v \<noteq> statusCritical then statusWarning else status v),
            warnings := warnings v @ [''CPU usage is high (>80%)'']\<rparr>)
   \<and> (f64_gt z 85 \<and> \<not> f64_gt z 95 \<longrightarrow>
        check_memory z v =
          v\<lparr>status := (if status v \<noteq> statusCritical then statusWarning else status v),
            warnings := warnings v @ [''Memory usage is high (>85%)'']\<rparr>
        \<and> check_disk z v =
          v\<lparr>status := (if status v \<noteq> statusCritical then statusWarning else status v),
            warnings := warnings v @ [''Disk usage is high (>85%)'']\<rparr>)"
proof -
  have at_95: "\<not> f64_gt (Finite 95) 95" "f64_gt (Finite 95) 80" "f64_gt (Finite 95) 85"
    by simp_all
  have at_warn: "\<not> f64_gt (Finite 80) 95" "\<not> f64_gt (Finite 80) 80"
    "\<not> f64_gt (Finite 85) 95" "\<not> f64_gt (Finite 85) 85"
    by simp_all
  have blocks_95: "check_cpu (Finite 95) v =
      v\<lparr>status := (if status v \<noteq> statusCritical then statusWarning else status v),
        warnings := warnings v @ [''CPU usage is high (>80%)'']\<rparr>"
    "check_memory (Finite 95) v =
      v\<lparr>status := (if status v \<noteq> statusCritical then statusWarning else status v),
        warnings := warnings v @ [''Memory usage is high (>85%)'']\<rparr>"
    "check_disk (Finite 95) v =
      v\<lparr>status := (if status v \<noteq> statusCritical then statusWarning else status v),
        warnings := warnings v @ [''Disk usage is high (>85%)'']\<rparr>"
    unfolding check_defs using at_95 by simp_all
  have blocks_warn: "check_cpu (Finite 80) v = v" "check_memory (Finite 85) v = v"
    "check_disk (Finite 85) v = v"
    unfolding check_defs using at_warn by simp_all
  have examples: "classify (Finite 95) (Finite 85) (Finite 95) =
      \<lparr>status = statusWarning,
       warnings = [''CPU usage is high (>80%)'', ''Disk usage is high (>85%)'']\<rparr>"
    "classify (Finite 80) (Finite 85) (Finite 85) = \<lparr>status = statusHealthy, warnings = []\<rparr>"
    by (simp_all add: classify_def check_defs initial_verdict_def status_distinct)
  have above: "f64_gt x 95 \<longrightarrow>
        check_cpu x v =
          v\<lparr>status := statusCritical, warnings := warnings v @ [''CPU usage is critical (>95%)'']\<rparr>
        \<and> check_memory x v =
          v\<lparr>status := statusCritical, warnings := warnings v @ [''Memory usage is critical (>95%)'']\<rparr>
        \<and> check_disk x v =
          v\<lparr>status := statusCritical, warnings := warnings v @ [''Disk usage is critical (>95%)'']\<rparr>"
    by (simp add: check_defs)
  have high_cpu: "f64_gt y 80 \<and> \<not> f64_gt y 95 \<longrightarrow>
        check_cpu y v =
          v\<lparr>status := (if status v \<noteq> statusCritical then statusWarning else status v),
            warnings := warnings v @ [''CPU usage is high (>80%)'']\<rparr>"
    by (simp add: check_defs)
  have high_other: "f64_gt z 85 \<and> \<not> f64_gt z 95 \<longrightarrow>
        check_memory z v =
          v\<lparr>status := (if status v \<noteq> statusCritical then statusWarning else status v),
            warnings := warnings v @ [''Memory usage is high (>85%)'']\<rparr>
        \<and> check_disk z v =
          v\<lparr>status := (if status v \<noteq> statusCritical then statusWarning else status v),
            warnings := warnings v @ [''Disk usage is high (>85%)'']\<rparr>"
    by (simp add: check_defs)
  from blocks_95 blocks_warn examples above high_cpu high_other show ?thesis
    by blast
qed

text \<open>
  The strict comparisons at values just above the thresholds: 95.0001 takes the
  critical branch, 80.5 the CPU warning branch and 85.5 the memory and disk ones.
\<close>

theorem thresholds_strict_witness:
  "f64_gt (Finite (950001 / 10000)) 95
   \<and> check_cpu (Finite (950001 / 10000)) initial_verdict =
       \<lparr>status = statusCritical, warnings = [''CPU usage is critical (>95%)'']\<rparr>
   \<and> f64_gt (Finite (161 / 2)) 80 \<and> \<not> f64_gt (Finite (161 / 2)) 95
   \<and> check_cpu (Finite (161 / 2)) initial_verdict =
       \<lparr>status = statusWarning, warnings = [''CPU usage is high (>80%)'']\<rparr>
   \<and> f64_gt (Finite (171 / 2)) 85 \<and> \<not> f64_gt (Finite (171 / 2)) 95
   \<and> check_disk (Finite (171 / 2)) initial_verdict =
       \<lparr>status = statusWarning, warnings = [''Disk usage is high (>85%)'']\<rparr>"
  using thresholds_strict
    [of initial_verdict "Finite (950001 / 10000)" "Finite (161 / 2)" "Finite (171 / 2)"]
  by (simp add: initial_verdict_def status_distinct)

section \<open>The warnings and their order\<close>

text \<open>
  C7. The warnings are the message of the CPU check (if any), then that of the memory
  check, then that of the disk check, each with its exact text; for CPU 85, memory 96,
  disk 30 the verdict is \<^verbatim>\<open>critical\<close> with the warnings "CPU usage is high (>80%)" and
  "Memory usage is critical (>95%)", in this order.
\<close>

theorem warnings_in_source_order:
  "warnings (classify c m d) = cpu_warnings c @ memory_warnings m @ disk_warnings d
   \<and> classify (Finite 85) (Finite 96) (Finite 30) =
       \<lparr>status = statusCritical,
        warnings = [''CPU usage is high (>80%)'', ''Memory usage is critical (>95%)'']\<rparr>"
proof -
  have "warnings (classify c m d) = cpu_warnings c @ memory_warnings m @ disk_warnings d"
    by (simp add: classify_def check_defs initial_verdict_def cpu_warnings_def
        memory_warnings_def disk_warnings_def metric_warnings_def)
  moreover have "classify (Finite 85) (Finite 96) (Finite 30) =
       \<lparr>status = statusCritical,
        warnings = [''CPU usage is high (>80%)'', ''Memory usage is critical (>95%)'']\<rparr>"
    by (simp add: classify_def check_defs initial_verdict_def status_distinct)
  ultimately show ?thesis by simp
qed

section \<open>The status is the greatest severity\<close>

lemma severity_check_cpu: "severity (status v) \<le> severity (status (check_cpu x v))"
  by (simp add: check_cpu_def severity_def status_distinct)

lemma severity_check_memory: "severity (status v) \<le> severity (status (check_memory x v))"
  by (simp add: check_memory_def severity_def status_distinct)

lemma severity_check_disk: "severity (status v) \<le> severity (status (check_disk x v))"
  by (simp add: check_disk_def severity_def status_distinct)

lemma critical_kept:
  "status v = statusCritical \<Longrightarrow> status (check_cpu x v) = statusCritical"
  "status v = statusCritical \<Longrightarrow> status (check_memory x v) = statusCritical"
  "status v = statusCritical \<Longrightarrow> status (check_disk x v) = statusCritical"
  by (simp_all add: check_defs)

text \<open>
  C6. The status of the verdict is the greatest, in the order
  \<^verbatim>\<open>critical > warning > healthy\<close>, of the severities the three metrics imply one by one.
  No block lowers the status it starts from, whatever that status and the metric are (so
  the running status never decreases along CPU, memory, disk), and a status that is
  \<^verbatim>\<open>critical\<close> stays \<^verbatim>\<open>critical\<close> through every later block.
\<close>

theorem status_is_max_severity:
  "status (classify c m d) =
     max_severity (max_severity (metric_severity 95 80 c) (metric_severity 95 85 m))
       (metric_severity 95 85 d)
   \<and> severity (status initial_verdict) \<le> severity (status (check_cpu c initial_verdict))
   \<and> severity (status (check_cpu c initial_verdict))
       \<le> severity (status (check_memory m (check_cpu c initial_verdict)))
   \<and> severity (status (check_memory m (check_cpu c initial_verdict)))
       \<le> severity (status (classify c m d))
   \<and> severity (status v) \<le> severity (status (check_cpu x v))
   \<and> severity (status v) \<le> severity (status (check_memory x v))
   \<and> severity (status v) \<le> severity (status (check_disk x v))
   \<and> (status v = statusCritical \<longrightarrow>
        status (check_cpu x v) = statusCritical
        \<and> status (check_memory x v) = statusCritical
        \<and> status (check_disk x v) = statusCritical)"
proof -
  have "status (classify c m d) =
     max_severity (max_severity (metric_severity 95 80 c) (metric_severity 95 85 m))
       (metric_severity 95 85 d)"
    by (simp add: classify_def check_defs initial_verdict_def max_severity_def
        metric_severity_def severity_def status_distinct)
  moreover have "severity (status (check_memory m (check_cpu c initial_verdict)))
       \<le> severity (status (classify c m d))"
    unfolding classify_def by (rule severity_check_disk)
  ultimately show ?thesis
    using severity_check_cpu severity_check_memory severity_check_disk critical_kept
    by simp
qed

text \<open>
  A run that is \<^verbatim>\<open>critical\<close> after the CPU block (CPU 96) and meets a memory usage of 90,
  which alone implies \<^verbatim>\<open>warning\<close>: the status stays \<^verbatim>\<open>critical\<close>.
\<close>

theorem status_is_max_severity_witness:
  "status (check_cpu (Finite 96) initial_verdict) = statusCritical
   \<and> metric_severity 95 85 (Finite 90) = statusWarning
   \<and> status (check_memory (Finite 90) (check_cpu (Finite 96) initial_verdict)) = statusCritical"
  using status_is_max_severity [of _ _ _ "check_cpu (Finite 96) initial_verdict" "Finite 90"]
  by (simp add: check_cpu_def metric_severity_def)

section \<open>Independence of the evaluation order\<close>

lemma summary_check_metric:
  "verdict_summary (check_metric c m d k v) = summary_check c m d k (verdict_summary v)"
  by (cases k) (simp_all add: verdict_summary_def summary_check_def check_metric_def check_defs)

lemma summary_check_commute:
  "summary_check c m d k (summary_check c m d k' a) =
   summary_check c m d k' (summary_check c m d k a)"
  by (cases k; cases k')
     (simp_all add: summary_check_def check_metric_def check_defs status_distinct)

lemma summary_fold:
  "verdict_summary (fold (check_metric c m d) ks v) =
   fold (summary_check c m d) ks (verdict_summary v)"
  by (induction ks arbitrary: v) (simp_all add: summary_check_metric)

lemma summary_fold_perm:
  assumes "mset ks = mset ks'"
  shows "fold (summary_check c m d) ks = fold (summary_check c m d) ks'"
  using _ assms
proof (rule fold_multiset_equiv)
  fix x y
  show "summary_check c m d x \<circ> summary_check c m d y =
        summary_check c m d y \<circ> summary_check c m d x"
    by (rule ext) (simp add: summary_check_commute)
qed

lemma classify_in_source_order: "classify_in_order [CPU, Memory, Disk] c m d = classify c m d"
  by (simp add: classify_in_order_def classify_def check_metric_def)

text \<open>
  C5. Running the three blocks in any of the six orders of CPU, memory and disk gives
  the status the source's order gives, and the same warnings up to their order.
\<close>

theorem status_order_independent:
  assumes "mset order = mset [CPU, Memory, Disk]"
  shows "status (classify_in_order order c m d) = status (classify c m d)
     \<and> mset (warnings (classify_in_order order c m d)) = mset (warnings (classify c m d))"
proof -
  have "verdict_summary (classify_in_order order c m d) =
        verdict_summary (classify_in_order [CPU, Memory, Disk] c m d)"
    unfolding classify_in_order_def summary_fold
    by (simp only: summary_fold_perm [OF assms])
  then show ?thesis
    by (simp add: classify_in_source_order verdict_summary_def)
qed

text \<open>Disk before CPU before memory, for CPU 85, memory 96, disk 90.\<close>

theorem status_order_independent_witness:
  "mset [Disk, CPU, Memory] = mset [CPU, Memory, Disk]
   \<and> classify_in_order [Disk, CPU, Memory] (Finite 85) (Finite 96) (Finite 90) =
       \<lparr>status = statusCritical,
        warnings = [''Disk usage is high (>85%)'', ''CPU usage is high (>80%)'',
          ''Memory usage is critical (>95%)'']\<rparr>
   \<and> status (classify (Finite 85) (Finite 96) (Finite 90)) = statusCritical
   \<and> mset (warnings (classify (Finite 85) (Finite 96) (Finite 90))) =
       mset [''Disk usage is high (>85%)'', ''CPU usage is high (>80%)'',
          ''Memory usage is critical (>95%)'']"
proof -
  have perm: "mset [Disk, CPU, Memory] = mset [CPU, Memory, Disk]"
    by simp
  have run: "classify_in_order [Disk, CPU, Memory] (Finite 85) (Finite 96) (Finite 90) =
       \<lparr>status = statusCritical,
        warnings = [''Disk usage is high (>85%)'', ''CPU usage is high (>80%)'',
          ''Memory usage is critical (>95%)'']\<rparr>"
    by (simp add: classify_in_order_def check_metric_def check_defs initial_verdict_def
        status_distinct)
  from status_order_independent [OF perm, of "Finite 85" "Finite 96" "Finite 90"] perm run
  show ?thesis by simp
qed

section \<open>The classification cannot fail\<close>

lemma classify_status_cases:
  "status (classify c m d) \<in> {statusHealthy, statusWarning, statusCritical}"
  by (simp add: classify_def check_defs initial_verdict_def)

text \<open>
  C8. The classification has no error branch and reads nothing but the three usage
  percentages. Whenever the library calls of the handler have succeeded and the values to
  serialise are finite, the handler answers with a result (no error, no panic) whose
  status and warnings are \<open>classify\<close> of the three percentages, whatever these are
  (negative and above 100 included) and whatever the other inputs are; the status is one
  of \<^verbatim>\<open>healthy\<close>, \<^verbatim>\<open>warning\<close>, \<^verbatim>\<open>critical\<close>.
\<close>

theorem health_classification_total:
  assumes "cpuPercent_of src = c # rest"
    and "mem_VirtualMemory src = Inr memInfo"
    and "disk_Usage src = Inr rootDisk"
    and "host_Info src = Inr info"
    and "is_finite c" and "is_finite (mem_UsedPercent memInfo)"
    and "is_finite (disk_UsedPercent rootDisk)"
    and "is_finite (Load1 (loadAvg_of src))" and "is_finite (Load5 (loadAvg_of src))"
    and "is_finite (Load15 (loadAvg_of src))"
  shows "\<exists>r. HandleGetSystemHealth src = Return (ToolResultText r)
     \<and> \<lparr>status = result_status r, warnings = result_warnings r\<rparr> =
         classify c (mem_UsedPercent memInfo) (disk_UsedPercent rootDisk)
     \<and> result_status r \<in> {statusHealthy, statusWarning, statusCritical}"
  using assms classify_status_cases [of c "mem_UsedPercent memInfo" "disk_UsedPercent rootDisk"]
  by (simp add: HandleGetSystemHealth_def marshal_ok_def Let_def)

theorem health_classification_total_witness:
  "cpuPercent_of sample_sources = [Finite (-5)]
   \<and> mem_VirtualMemory sample_sources =
       Inr \<lparr>mem_UsedPercent = Finite (-1), mem_Available = 0, mem_Total = 0\<rparr>
   \<and> disk_Usage sample_sources =
       Inr \<lparr>disk_UsedPercent = Finite 120, disk_Free = 0, disk_Total = 1000\<rparr>
   \<and> host_Info sample_sources = Inr \<lparr>Uptime = 42, Hostname = ''pi''\<rparr>
   \<and> is_finite (Load1 (loadAvg_of sample_sources))
   \<and> is_finite (Load5 (loadAvg_of sample_sources))
   \<and> is_finite (Load15 (loadAvg_of sample_sources))
   \<and> (\<exists>r. HandleGetSystemHealth sample_sources = Return (ToolResultText r)
        \<and> result_status r = statusCritical
        \<and> result_warnings r = [''Disk usage is critical (>95%)''])"
proof -
  have cpu: "cpuPercent_of sample_sources = [Finite (-5)]"
    by (simp add: cpuPercent_of_def sample_sources_def)
  have mem: "mem_VirtualMemory sample_sources =
       Inr \<lparr>mem_UsedPercent = Finite (-1), mem_Available = 0, mem_Total = 0\<rparr>"
    by (simp add: sample_sources_def)
  have disk: "disk_Usage sample_sources =
       Inr \<lparr>disk_UsedPercent = Finite 120, disk_Free = 0, disk_Total = 1000\<rparr>"
    by (simp add: sample_sources_def)
  have host: "host_Info sample_sources = Inr \<lparr>Uptime = 42, Hostname = ''pi''\<rparr>"
    by (simp add: sample_sources_def)
  have load: "is_finite (Load1 (loadAvg_of sample_sources))"
    "is_finite (Load5 (loadAvg_of sample_sources))"
    "is_finite (Load15 (loadAvg_of sample_sources))"
    by (simp_all add: loadAvg_of_def sample_sources_def)
  have verdict: "classify (Finite (-5)) (Finite (-1)) (Finite 120) =
      \<lparr>status = statusCritical, warnings = [''Disk usage is critical (>95%)'']\<rparr>"
    by (simp add: classify_def check_defs initial_verdict_def)
  from health_classification_total [OF cpu mem disk host _ _ _ load]
  obtain r where "HandleGetSystemHealth sample_sources = Return (ToolResultText r)"
    and "\<lparr>status = result_status r, warnings = result_warnings r\<rparr> =
         classify (Finite (-5)) (Finite (-1)) (Finite 120)"
    by auto
  with verdict have "\<exists>r. HandleGetSystemHealth sample_sources = Return (ToolResultText r)
        \<and> result_status r = statusCritical
        \<and> result_warnings r = [''Disk usage is critical (>95%)'']"
    by auto
  with cpu mem disk host load show ?thesis by simp
qed

section \<open>The configured process limit\<close>

text \<open>
  C9. For a configuration whose temperature unit is valid (one of the three units once
  lowered), \<^verbatim>\<open>Validate\<close> returns no error; a \<^verbatim>\<open>MaxProcesses\<close> below 1 becomes 10, one
  above 50 becomes 50, and one from 1 to 50 is kept.
\<close>

theorem Validate_clamps_MaxProcesses:
  assumes "ToLower (TempUnit c) \<in> {UnitCelsius, UnitFahrenheit, UnitKelvin}"
  shows "snd (Validate ToLower TrimSpace c) = None
     \<and> MaxProcesses (fst (Validate ToLower TrimSpace c)) =
         (if MaxProcesses c < 1 then 10
          else if MaxProcesses c > 50 then 50
          else MaxProcesses c)"
  using assms by (auto simp: Validate_def Let_def)

theorem Validate_clamps_MaxProcesses_witness:
  "ascii_ToLower (TempUnit sample_config) \<in> {UnitCelsius, UnitFahrenheit, UnitKelvin}
   \<and> MaxProcesses sample_config = 0
   \<and> snd (Validate ascii_ToLower ascii_TrimSpace sample_config) = None
   \<and> MaxProcesses (fst (Validate ascii_ToLower ascii_TrimSpace sample_config)) = 10
   \<and> snd (Validate ascii_ToLower ascii_TrimSpace (sample_config\<lparr>MaxProcesses := 100\<rparr>)) = None
   \<and> MaxProcesses (fst (Validate ascii_ToLower ascii_TrimSpace
         (sample_config\<lparr>MaxProcesses := 100\<rparr>))) = 50
   \<and> snd (Validate ascii_ToLower ascii_TrimSpace (sample_config\<lparr>MaxProcesses := 25\<rparr>)) = None
   \<and> MaxProcesses (fst (Validate ascii_ToLower ascii_TrimSpace
         (sample_config\<lparr>MaxProcesses := 25\<rparr>))) = 25"
proof -
  have unit: "ascii_ToLower (TempUnit sample_config) \<in> {UnitCelsius, UnitFahrenheit, UnitKelvin}"
    by code_simp
  have unit': "ascii_ToLower (TempUnit (sample_config\<lparr>MaxProcesses := n\<rparr>))
      \<in> {UnitCelsius, UnitFahrenheit, UnitKelvin}" for n
    using unit by simp
  have low: "MaxProcesses sample_config = 0"
    by (simp add: sample_config_def)
  from Validate_clamps_MaxProcesses
      [where ToLower = ascii_ToLower and c = sample_config and TrimSpace = ascii_TrimSpace,
       OF unit]
    Validate_clamps_MaxProcesses
      [where ToLower = ascii_ToLower and c = "sample_config\<lparr>MaxProcesses := 100\<rparr>"
         and TrimSpace = ascii_TrimSpace, OF unit']
    Validate_clamps_MaxProcesses
      [where ToLower = ascii_ToLower and c = "sample_config\<lparr>MaxProcesses := 25\<rparr>"
         and TrimSpace = ascii_TrimSpace, OF unit']
    unit low
  show ?thesis by simp
qed

section \<open>The limit of a request\<close>

lemma float64_to_int_in_range:
  assumes "0 < r" and "\<lfloor>r\<rfloor> < 2 ^ (int_bits p - 1)"
  shows "float64_to_int p (Finite r) = \<lfloor>r\<rfloor>"
proof -
  have "0 \<le> \<lfloor>r\<rfloor>" using assms(1) by simp
  moreover have "- (2 ^ (int_bits p - 1)) \<le> (0::int)" by simp
  ultimately have "- (2 ^ (int_bits p - 1)) \<le> \<lfloor>r\<rfloor>" by linarith
  then show ?thesis using assms by (simp add: float64_to_int_def)
qed

lemma build_procList_length:
  "build_procList processes = Return procList \<Longrightarrow> length procList = length processes"
  by (induction processes arbitrary: procList)
     (auto split: option.splits outcome.splits)

lemma limit_results_nonneg:
  assumes "0 \<le> L"
  shows "limit_results L xs = Return (take (nat L) xs)"
proof (cases "int (length xs) > L")
  case True
  then show ?thesis using assms by (simp add: limit_results_def)
next
  case False
  then have "length xs \<le> nat L" using assms by linarith
  then show ?thesis using False by (simp add: limit_results_def)
qed

lemma limit_results_negative: "L < 0 \<Longrightarrow> limit_results L xs = Panic"
  by (simp add: limit_results_def)

text \<open>
  Where the conversion is defined, the handler does what is expected of it. A \<^verbatim>\<open>limit\<close>
  argument above 0 whose integer part fits \<^verbatim>\<open>int\<close> is truncated and capped at 50, and is
  never raised. When \<^verbatim>\<open>process.Processes\<close> and every \<^verbatim>\<open>MemoryInfo\<close> have succeeded, the sort
  has permuted the list and the percentages are finite, the handler returns the first
  \<open>min \<lfloor>r\<rfloor> 50\<close> processes of the sorted list, or all of them when there are fewer; for an
  argument below 1 it returns none.
\<close>

lemma limit_in_range:
  assumes "args ''limit'' = Some (ArgNumber (Finite r))"
    and "0 < r" and "\<lfloor>r\<rfloor> < 2 ^ (int_bits p - 1)"
  shows "process_limit p cfg (Some args) = min \<lfloor>r\<rfloor> 50"
    and "0 \<le> process_limit p cfg (Some args)"
    and "r < 1 \<Longrightarrow> process_limit p cfg (Some args) = 0"
proof -
  have conv: "float64_to_int p (Finite r) = \<lfloor>r\<rfloor>"
    using assms(2,3) by (rule float64_to_int_in_range)
  have nonneg: "0 \<le> \<lfloor>r\<rfloor>" using assms(2) by simp
  show limit: "process_limit p cfg (Some args) = min \<lfloor>r\<rfloor> 50"
    using assms(1,2) conv by (simp add: process_limit_def Let_def min_def)
  show "0 \<le> process_limit p cfg (Some args)"
    unfolding limit using nonneg by simp
  show "process_limit p cfg (Some args) = 0" if "r < 1"
  proof -
    have "\<lfloor>r\<rfloor> = 0" using assms(2) that by (simp add: floor_eq_iff)
    then show ?thesis unfolding limit by simp
  qed
qed

lemma HandleGetProcessList_in_range:
  assumes "args ''limit'' = Some (ArgNumber (Finite r))"
    and "0 < r" and "\<lfloor>r\<rfloor> < 2 ^ (int_bits p - 1)"
    and built: "build_procList processes = Return procList"
    and sorted: "mset (sort_Slice (process_less (process_sortBy ToLower (Some args))) procList)
                   = mset procList"
    and finite: "list_all (\<lambda>i. is_finite (info_CPU i) \<and> is_finite (info_Memory i)) procList"
  shows "HandleGetProcessList p sort_Slice ToLower cfg (Some args) (Inr processes) =
           Return (ToolResultText
             \<lparr>result_processes =
                take (nat (min \<lfloor>r\<rfloor> 50))
                  (sort_Slice (process_less (process_sortBy ToLower (Some args))) procList),
              result_total = length processes,
              result_shown = min (nat (min \<lfloor>r\<rfloor> 50)) (length processes),
              result_sort_by = process_sortBy ToLower (Some args)\<rparr>)"
proof -
  define ys where "ys = sort_Slice (process_less (process_sortBy ToLower (Some args))) procList"
  define L where "L = min \<lfloor>r\<rfloor> 50"
  have limit: "process_limit p cfg (Some args) = L" and L_nonneg: "0 \<le> L"
    using limit_in_range(1,2) [where args = args and r = r and p = p and cfg = cfg, OF assms(1-3)]
    by (simp_all add: L_def)
  have len: "length ys = length processes"
    using sorted build_procList_length [OF built] mset_eq_length [of ys procList]
    by (simp add: ys_def)
  have shown: "limit_results L ys = Return (take (nat L) ys)"
    using L_nonneg by (rule limit_results_nonneg)
  have "set (take (nat L) ys) \<subseteq> set procList"
    using set_take_subset [of "nat L" ys] mset_eq_setD [of ys procList] sorted
    by (simp add: ys_def)
  then have ok: "list_all (\<lambda>i. is_finite (info_CPU i) \<and> is_finite (info_Memory i))
      (take (nat L) ys)"
    using finite unfolding list_all_iff by blast
  show ?thesis
    unfolding HandleGetProcessList_def
    using built shown ok len
    by (simp add: limit process_marshal_ok_def Let_def flip: ys_def L_def)
qed

text \<open>
  On a platform whose conversion saturates, an argument too large for \<^verbatim>\<open>int\<close> is capped at
  50 like any other.
\<close>

lemma huge_limit_capped_when_saturating:
  assumes "int_bits p = 64" and "out_of_range_int p (Finite (10 ^ 19)) = 2 ^ 63 - 1"
  shows "process_limit p cfg (Some [''limit'' \<mapsto> ArgNumber (Finite (10 ^ 19))]) = 50"
  using assms by (simp add: process_limit_def float64_to_int_def Let_def)

text \<open>
  C10. The handler caps the limit at 50 after the conversion \<^verbatim>\<open>int(l)\<close>, which it does not
  guard. The argument \<^verbatim>\<open>1e19\<close> is above 0 and above 50 but does not fit a 64-bit \<^verbatim>\<open>int\<close>. On
  amd64 the limit becomes the smallest integer instead of 50; the list of the three
  sample processes is built without a panic, and the slice expression
  \<^verbatim>\<open>procList[:limit]\<close> then panics, whatever the sort does, instead of the handler returning
  \<open>min limit total\<close> processes.
\<close>

theorem huge_limit_not_capped:
  "process_limit amd64 sample_config
     (Some [''limit'' \<mapsto> ArgNumber (Finite (10 ^ 19))]) = - (2 ^ 63)
   \<and> build_procList sample_processes \<noteq> Panic
   \<and> HandleGetProcessList amd64 sort_Slice ToLower sample_config
     (Some [''limit'' \<mapsto> ArgNumber (Finite (10 ^ 19))]) (Inr sample_processes) = Panic"
proof -
  have limit: "process_limit amd64 sample_config
     (Some [''limit'' \<mapsto> ArgNumber (Finite (10 ^ 19))]) = - (2 ^ 63)"
    by (simp add: process_limit_def float64_to_int_def amd64_def Let_def)
  obtain procList where built: "build_procList sample_processes = Return procList"
    by (simp add: sample_processes_def)
  have sliced: "limit_results (- (2 ^ 63)) (sort_Slice less procList) = Panic" for less
    by (rule limit_results_negative) simp
  have "HandleGetProcessList amd64 sort_Slice ToLower sample_config
     (Some [''limit'' \<mapsto> ArgNumber (Finite (10 ^ 19))]) (Inr sample_processes) = Panic"
    unfolding HandleGetProcessList_def Let_def limit using built sliced by simp
  with limit built show ?thesis by simp
qed

end
